theory Spec2Isabelle
  imports Complex_Main
begin

section \<open>Numbers\<close>

text \<open>
  A TypeScript \<open>number\<close> is an IEEE 754 double. It is embedded as a \<^typ>\<open>real\<close> that
  stands for the double nearest to it: a \<open>DECIMAL\<close> column arrives as text and is read as
  the nearest double, and so is a decimal literal of the source such as \<open>3.7\<close>, written
  here as the rational \<open>37/10\<close>. Rounding to the nearest double is monotone, and in
  the range of the columns two decimals of at most two places that differ have different
  doubles, so a comparison of two such values is the comparison of the reals. Arithmetic is
  not exact: \<open>a - b\<close>,
  \<open>a + b\<close> and \<open>a / b\<close> of the source are the exact operation on the doubles of the
  operands, rounded to the nearest double, a tie going to the even significand.
  \<open>NaN\<close> and the infinities have no counterpart; where the source tests for \<open>NaN\<close> the
  tested value is an \<open>option\<close> with \<open>None\<close> for \<open>NaN\<close>.
\<close>

text \<open>\<open>\<lfloor>log\<^sub>2 x\<rfloor>\<close> for a positive \<open>x\<close>, by halving and doubling.\<close>

function ilog2 :: "real \<Rightarrow> int" where
  "ilog2 x =
     (if x \<le> 0 then 0
      else if x \<ge> 2 then ilog2 (x / 2) + 1
      else if x < 1 then ilog2 (x * 2) - 1
      else 0)"
  by pat_completeness auto

termination
proof (relation "measures [\<lambda>x. nat \<lceil>1 / x\<rceil>, \<lambda>x. nat \<lceil>x\<rceil>]")
  have half: "\<lceil>y / 2\<rceil> < \<lceil>y\<rceil>" if y: "1 < y" for y :: real
  proof (cases "y \<le> 2")
    case True
    then have "\<lceil>y / 2\<rceil> \<le> 1"
      by (simp add: ceiling_le_iff)
    moreover have "1 < \<lceil>y\<rceil>"
      using y by (simp add: less_ceiling_iff)
    ultimately show ?thesis
      by linarith
  next
    case False
    then have "y / 2 \<le> of_int \<lceil>y\<rceil> - 1"
      using le_of_int_ceiling [of y] by linarith
    then show ?thesis
      by (simp add: ceiling_less_iff)
  qed
  show "wf (measures [\<lambda>x::real. nat \<lceil>1 / x\<rceil>, \<lambda>x. nat \<lceil>x\<rceil>])"
    by simp
  show "(x / 2, x) \<in> measures [\<lambda>x. nat \<lceil>1 / x\<rceil>, \<lambda>x. nat \<lceil>x\<rceil>]"
    if "\<not> x \<le> 0" "2 \<le> x" for x :: real
  proof -
    have same: "\<lceil>1 / (x / 2)\<rceil> = 1" "\<lceil>1 / x\<rceil> = 1"
      using that by (auto simp: ceiling_eq_iff field_simps)
    have "\<lceil>x / 2\<rceil> < \<lceil>x\<rceil>"
      using that by (intro half) simp
    moreover have "0 < \<lceil>x\<rceil>"
      using that by (simp add: less_ceiling_iff)
    ultimately show ?thesis
      using same by simp
  qed
  show "(x * 2, x) \<in> measures [\<lambda>x. nat \<lceil>1 / x\<rceil>, \<lambda>x. nat \<lceil>x\<rceil>]"
    if "\<not> x \<le> 0" "\<not> 2 \<le> x" "x < 1" for x :: real
  proof -
    have "1 < 1 / x"
      using that by simp
    then have "\<lceil>(1 / x) / 2\<rceil> < \<lceil>1 / x\<rceil>"
      by (rule half)
    moreover have "0 < \<lceil>1 / x\<rceil>"
      using that by (simp add: less_ceiling_iff)
    ultimately have "nat \<lceil>(1 / x) / 2\<rceil> < nat \<lceil>1 / x\<rceil>"
      by linarith
    moreover have "1 / (x * 2) = (1 / x) / 2"
      by simp
    ultimately have "nat \<lceil>1 / (x * 2)\<rceil> < nat \<lceil>1 / x\<rceil>"
      by (simp only:)
    then show ?thesis
      by (simp only: in_measures) blast
  qed
qed

declare ilog2.simps [simp del]

text \<open>The integer nearest to \<open>y\<close>, a tie going to the even one.\<close>

definition round_half_even :: "real \<Rightarrow> int" where
  "round_half_even y =
     (let n = \<lfloor>y\<rfloor>; r = y - of_int n
      in if r < 1 / 2 then n
         else if r > 1 / 2 then n + 1
         else if even n then n else n + 1)"

text \<open>
  The binary64 value nearest to \<open>x\<close>: 53 significant bits, the exponent of a normal number
  at least \<open>-1022\<close>, below that the fixed spacing \<open>2^-1074\<close> of the subnormal numbers.
  Beyond the largest double the source has an infinity and this function the rounded real.
\<close>

definition nearest_double :: "real \<Rightarrow> real" where
  "nearest_double x =
     (if x = 0 then 0
      else
        (let e = max (ilog2 \<bar>x\<bar>) (- 1022);
             q = 2 powi (e - 52)
         in of_int (round_half_even (x / q)) * q))"

text \<open>The operators \<open>-\<close>, \<open>+\<close> and \<open>/\<close> of the source on numbers.\<close>

definition double_sub :: "real \<Rightarrow> real \<Rightarrow> real" where
  "double_sub a b = nearest_double (nearest_double a - nearest_double b)"

definition double_add :: "real \<Rightarrow> real \<Rightarrow> real" where
  "double_add a b = nearest_double (nearest_double a + nearest_double b)"

definition double_div :: "real \<Rightarrow> real \<Rightarrow> real" where
  "double_div a b = nearest_double (nearest_double a / nearest_double b)"

section \<open>Grade calculation\<close>

subsection \<open>Database side: \<open>calculate_grade\<close> (SQL migration)\<close>

text \<open>The function returns a one-row table with the columns \<open>grade\<close> and \<open>grade_point\<close>.\<close>

record grade_row =
  grade :: string
  grade_point :: real

definition calculate_grade :: "real \<Rightarrow> grade_row" where
  "calculate_grade score =
     \<lparr>grade =
        (if score \<ge> 70 then ''A''
         else if score \<ge> 60 then ''B''
         else if score \<ge> 50 then ''C''
         else if score \<ge> 45 then ''D''
         else if score \<ge> 40 then ''E''
         else ''F''),
      grade_point =
        (if score \<ge> 70 then 4.0
         else if score \<ge> 60 then 3.0
         else if score \<ge> 50 then 2.0
         else if score \<ge> 45 then 1.0
         else if score \<ge> 40 then 0.0
         else 0.0)\<rparr>"

subsection \<open>Client side: \<open>calculateGradeInfo\<close> (ResultEntry.tsx)\<close>

record GradeInfo = grade_row +
  color :: string

definition calculateGradeInfo :: "real \<Rightarrow> GradeInfo" where
  "calculateGradeInfo score =
     (if score \<ge> 70 then \<lparr>grade = ''A'', grade_point = 4.0, color = ''bg-success''\<rparr>
      else if score \<ge> 60 then \<lparr>grade = ''B'', grade_point = 3.0, color = ''bg-primary''\<rparr>
      else if score \<ge> 50 then \<lparr>grade = ''C'', grade_point = 2.0, color = ''bg-accent''\<rparr>
      else if score \<ge> 45 then \<lparr>grade = ''D'', grade_point = 1.0, color = ''bg-warning''\<rparr>
      else if score \<ge> 40 then \<lparr>grade = ''E'', grade_point = 0.0, color = ''bg-warning''\<rparr>
      else \<lparr>grade = ''F'', grade_point = 0.0, color = ''bg-destructive''\<rparr>)"

section \<open>CGPA analysis (CGPAAnalyzer.tsx)\<close>

record semesters_join =
  name :: string
  year :: real

record CGPARecord =
  semester_gpa :: real
  cumulative_gpa :: real
  total_credit_units :: real
  semesters :: semesters_join

datatype trend = up | down | stable

datatype risk = low | medium | high

definition getClassification :: "real \<Rightarrow> string" where
  "getClassification cgpa =
     (if cgpa \<ge> 3.7 then ''First Class Honours''
      else if cgpa \<ge> 3.3 then ''Second Class Honours (Upper Division)''
      else if cgpa \<ge> 2.7 then ''Second Class Honours (Lower Division)''
      else if cgpa \<ge> 2.0 then ''Third Class Honours''
      else ''Pass'')"

text \<open>
  \<open>getRecommendations\<close> fills one array in two stages: the branch on the absolute CGPA
  pushes the strings of one band and sets the risk level, then the trend block may push one
  more string. The two stages are \<open>base_tier\<close> and \<open>trend_overlay\<close>; each returns what
  its stage pushes, in push order.
\<close>

definition base_tier :: "real \<Rightarrow> risk \<times> string list" where
  "base_tier cgpa =
     (if cgpa < 2.0 then
        (high,
         [''Seek academic counseling immediately'',
          ''Consider reducing course load to focus on improving grades'',
          ''Utilize tutoring services and study groups'',
          ''Meet with academic advisor to discuss academic standing''])
      else if cgpa < 2.7 then
        (medium,
         [''Improve study habits and time management'',
          ''Seek help from professors during office hours'',
          ''Consider forming study groups with classmates'',
          ''Focus on courses with higher credit values''])
      else if cgpa < 3.3 then
        (low,
         [''Maintain consistent study schedule'',
          ''Challenge yourself with advanced courses'',
          ''Consider research opportunities or internships''])
      else
        (low,
         [''Excellent performance! Keep up the good work'',
          ''Consider pursuing honors programs or research'',
          ''Explore leadership opportunities'',
          ''Prepare for graduate school applications if interested'']))"

definition trend_overlay :: "CGPARecord list \<Rightarrow> string list" where
  "trend_overlay records =
     (if length records > 1 then
        (let trend = double_sub (cumulative_gpa (records ! (length records - 1)))
                       (cumulative_gpa (records ! (length records - 2)))
         in if trend < nearest_double (- 0.2) then
              [''Address declining performance - identify problem areas'']
            else if trend > nearest_double 0.2 then
              [''Great improvement! Continue with current strategies'']
            else [])
      else [])"

definition getRecommendations :: "real \<Rightarrow> CGPARecord list \<Rightarrow> risk \<times> string list" where
  "getRecommendations cgpa records =
     (case base_tier cgpa of
        (riskLevel, recommendations) \<Rightarrow> (riskLevel, recommendations @ trend_overlay records))"

text \<open>
  The analysis object that \<open>analyzeCGPA\<close> stores. The student row is passed through
  untouched, so its type is a parameter.
\<close>

record 's CGPAAnalysis =
  student :: 's
  records :: "CGPARecord list"
  currentCGPA :: real
  trend :: trend
  classification :: string
  recommendations :: "string list"
  riskLevel :: risk

text \<open>An error object of the persistence client; only its \<open>message\<close> is ever read.\<close>

datatype error = Error (message: string)

definition currentCGPA_of :: "CGPARecord list \<Rightarrow> real" where
  "currentCGPA_of rs =
     (if length rs > 0 then cumulative_gpa (rs ! (length rs - 1)) else 0)"

definition trend_of :: "CGPARecord list \<Rightarrow> trend" where
  "trend_of rs =
     (if length rs > 1 then
        (let lastTwo = drop (length rs - 2) rs
         in if cumulative_gpa (lastTwo ! 1) > cumulative_gpa (lastTwo ! 0) then up
            else if cumulative_gpa (lastTwo ! 1) < cumulative_gpa (lastTwo ! 0) then down
            else stable)
      else stable)"

text \<open>
  The body of the \<open>try\<close> block of \<open>analyzeCGPA\<close>. Its two inputs are the answers of the
  two queries: an error, or the data (the record list may be \<open>null\<close>, read as the empty
  list). \<open>Inl\<close> is the error thrown to the \<open>catch\<close> block, \<open>Inr\<close> the analysis stored
  with \<open>setAnalysis\<close>.
\<close>

definition analyzeCGPA ::
  "error + 's \<Rightarrow> error + CGPARecord list option \<Rightarrow> error + 's CGPAAnalysis" where
  "analyzeCGPA studentAnswer cgpaAnswer =
     (case studentAnswer of
        Inl studentError \<Rightarrow> Inl studentError
      | Inr studentData \<Rightarrow>
          (case cgpaAnswer of
             Inl cgpaError \<Rightarrow> Inl cgpaError
           | Inr cgpaData \<Rightarrow>
               (let rs = (case cgpaData of None \<Rightarrow> [] | Some d \<Rightarrow> d);
                    cur = currentCGPA_of rs;
                    tr = trend_of rs;
                    cls = getClassification cur
                in case getRecommendations cur rs of
                     (rl, recs) \<Rightarrow>
                       Inr \<lparr>student = studentData, records = rs, currentCGPA = cur,
                            trend = tr, classification = cls,
                            recommendations = recs, riskLevel = rl\<rparr>)))"

section \<open>Dashboard aggregation (Dashboard.tsx)\<close>

text \<open>
  Rounding to \<open>f\<close> decimal places, a tie going away from zero: what
  \<open>Number.prototype.toFixed\<close> prints for a value below \<open>10^21\<close> in magnitude, and what
  PostgreSQL stores in a \<open>DECIMAL\<close> column of scale \<open>f\<close>.
\<close>

definition round_half_away :: "nat \<Rightarrow> real \<Rightarrow> real" where
  "round_half_away f x =
     (if x < 0 then - (of_int \<lfloor>- x * 10 ^ f + 1 / 2\<rfloor> / 10 ^ f)
      else of_int \<lfloor>x * 10 ^ f + 1 / 2\<rfloor> / 10 ^ f)"

text \<open>
  \<open>parseFloat(x.toFixed(fractionDigits))\<close> for a double \<open>x\<close>: \<open>toFixed\<close> rounds the
  exact value of the double; from \<open>10^21\<close> on it prints the number itself, which
  \<open>parseFloat\<close> reads back.
\<close>

definition toFixed_parseFloat :: "nat \<Rightarrow> real \<Rightarrow> real" where
  "toFixed_parseFloat fractionDigits x =
     (if \<bar>x\<bar> \<ge> 10 ^ 21 then x else round_half_away fractionDigits x)"

record 'r DashboardStats =
  totalStudents :: nat
  totalCourses :: nat
  averageCGPA :: real
  smsSent :: nat
  recentResults :: "'r list"
  gradeDistribution :: "string \<rightharpoonup> nat"

text \<open>
  The histogram: \<open>gradeData?.reduce(..., {}) || {}\<close> over the \<open>grade\<close> column of all
  results; \<open>None\<close> is the \<open>null\<close> that a failed query leaves.
\<close>

definition gradeDistribution_of :: "string list option \<Rightarrow> (string \<rightharpoonup> nat)" where
  "gradeDistribution_of gradeData =
     (case gradeData of
        None \<Rightarrow> Map.empty
      | Some rows \<Rightarrow>
          fold (\<lambda>result acc. acc(result \<mapsto> (case acc result of None \<Rightarrow> 0 | Some n \<Rightarrow> n) + 1))
            rows Map.empty)"

text \<open>
  The constant \<open>averageCGPA\<close> of \<open>fetchDashboardStats\<close>, over the \<open>cumulative_gpa\<close>
  column of all CGPA records: the values are added from left to right and the sum is divided
  by the count, in double arithmetic. \<open>parseFloat(record.cumulative_gpa.toString())\<close>
  gives a number back unchanged.
\<close>

definition averageCGPA_of :: "real list option \<Rightarrow> real" where
  "averageCGPA_of cgpaData =
     (case cgpaData of
        None \<Rightarrow> 0
      | Some rows \<Rightarrow>
          if length rows > 0 then
            double_div (fold (\<lambda>record sum. double_add sum record) rows 0) (real (length rows))
          else 0)"

text \<open>
  The statistics passed to \<open>setStats\<close>, as a function of the answers of the six queries
  (a count or a data array, \<open>None\<close> for \<open>null\<close>). The queries report a failure in their
  answer and do not throw, so the \<open>catch\<close> block is not entered.
\<close>

definition fetchDashboardStats ::
  "nat option \<Rightarrow> nat option \<Rightarrow> nat option \<Rightarrow> 'r list option \<Rightarrow> string list option
     \<Rightarrow> real list option \<Rightarrow> 'r DashboardStats" where
  "fetchDashboardStats studentsCount coursesCount smsCount recent gradeData cgpaData =
     \<lparr>totalStudents = (case studentsCount of None \<Rightarrow> 0 | Some n \<Rightarrow> n),
      totalCourses = (case coursesCount of None \<Rightarrow> 0 | Some n \<Rightarrow> n),
      averageCGPA = toFixed_parseFloat 2 (averageCGPA_of cgpaData),
      smsSent = (case smsCount of None \<Rightarrow> 0 | Some n \<Rightarrow> n),
      recentResults = (case recent of None \<Rightarrow> [] | Some rows \<Rightarrow> rows),
      gradeDistribution = gradeDistribution_of gradeData\<rparr>"

section \<open>Results and notifications (ResultEntry.tsx, SMSNotifications)\<close>

subsection \<open>Data\<close>

text \<open>
  The form of the result screen. Its \<open>score\<close> is the value of \<open>parseFloat\<close> on the text
  typed, \<open>None\<close> for \<open>NaN\<close>.
\<close>

record formData =
  student_id :: string
  course_id :: string
  semester_id :: string
  score :: "real option"

record students_join =
  first_name :: string
  last_name :: string
  student_id :: string
  phone_number :: string

record courses_join =
  course_code :: string
  course_name :: string

text \<open>
  A pending result as the notification screen holds it: columns of the result with the
  joined rows of its student, course and semester.
\<close>

record PendingResult =
  id' :: string
  score :: real
  grade :: string
  students :: students_join
  courses :: courses_join
  semesters :: semesters_join

text \<open>
  A row of the table \<open>results\<close>, seen through the same joins. \<open>sms_sent\<close> is the
  notified flag.
\<close>

record results_row = PendingResult +
  student_id :: string
  course_id :: string
  semester_id :: string
  grade_point :: real
  sms_sent :: bool

record toast =
  title :: string
  description :: string
  variant :: "string option"

text \<open>
  The state that the handlers read and write: the table \<open>results\<close> (newest row first, the
  order of every listing), the list \<open>pendingResults\<close> and the flag \<open>sending\<close> of the
  notification screen, the toasts shown so far (oldest first), and the ids of the rows for
  which an update of \<open>sms_sent\<close> has been sent to the store (oldest first).
\<close>

record app =
  results :: "results_row list"
  pendingResults :: "PendingResult list"
  sending :: bool
  toasts :: "toast list"
  update_requests :: "string list"

text \<open>
  What the persistence service answers during one user action: the rows of the tables
  \<open>students\<close>, \<open>courses\<close> and \<open>semesters\<close> by id, the id generated for an inserted row,
  and the error, if any, of an insert, of a select, and of the update of the row with a
  given id.
\<close>

record env =
  students_tab :: "string \<rightharpoonup> students_join"
  courses_tab :: "string \<rightharpoonup> courses_join"
  semesters_tab :: "string \<rightharpoonup> semesters_join"
  new_id :: string
  insert_error :: "error option"
  select_error :: "error option"
  update_error :: "string \<Rightarrow> error option"

subsection \<open>Toasts\<close>

definition destructive :: "string \<Rightarrow> string \<Rightarrow> toast" where
  "destructive t d = \<lparr>title = t, description = d, variant = Some ''destructive''\<rparr>"

definition plain :: "string \<Rightarrow> string \<Rightarrow> toast" where
  "plain t d = \<lparr>title = t, description = d, variant = None\<rparr>"

definition show_toast :: "toast \<Rightarrow> app \<Rightarrow> app" where
  "show_toast t s = s\<lparr>toasts := toasts s @ [t]\<rparr>"

text \<open>\<open>error.message || d\<close>: the empty message is falsy.\<close>

definition message_or :: "error \<Rightarrow> string \<Rightarrow> string" where
  "message_or e d = (if message e = [] then d else message e)"

text \<open>A count in a template literal: the decimal digits of a natural number.\<close>

definition digit :: "nat \<Rightarrow> char" where
  "digit d = ''0123456789'' ! d"

function string_of_nat :: "nat \<Rightarrow> string" where
  "string_of_nat n =
     (if n < 10 then [digit n] else string_of_nat (n div 10) @ [digit (n mod 10)])"
  by pat_completeness auto
termination
  by (relation "measure (\<lambda>n. n)") auto

declare string_of_nat.simps [simp del]

subsection \<open>Adding a result\<close>

text \<open>
  The insert into \<open>results\<close> with the constraints of the migration: the foreign keys, the
  two \<open>CHECK\<close>s, the primary key and \<open>UNIQUE(student_id, course_id, semester_id)\<close>. The
  score is stored with two decimals, \<open>sms_sent\<close> gets its default \<open>false\<close>. The
  messages of the constraint errors are the database's, abridged; the handlers only display
  them.
\<close>

definition insert_result ::
  "env \<Rightarrow> string \<Rightarrow> string \<Rightarrow> string \<Rightarrow> real \<Rightarrow> string \<Rightarrow> real
     \<Rightarrow> results_row list \<Rightarrow> error + results_row list" where
  "insert_result e student_fk course_fk semester_fk sc g gp rows =
     (case insert_error e of
        Some error \<Rightarrow> Inl error
      | None \<Rightarrow>
          (case (students_tab e student_fk, courses_tab e course_fk, semesters_tab e semester_fk) of
             (Some st, Some co, Some se) \<Rightarrow>
               (let stored = round_half_away 2 sc
                in if stored < 0 \<or> stored > 100 then
                     Inl (Error ''violates check constraint results_score_check'')
                   else if gp < 0 \<or> gp > 4 then
                     Inl (Error ''violates check constraint results_grade_point_check'')
                   else if new_id e \<in> set (map id' rows) then
                     Inl (Error ''duplicate key value violates unique constraint results_pkey'')
                   else if (student_fk, course_fk, semester_fk)
                             \<in> set (map (\<lambda>r. (results_row.student_id r, results_row.course_id r,
                                               results_row.semester_id r)) rows) then
                     Inl (Error ''duplicate key value violates unique constraint results_student_id_course_id_semester_id_key'')
                   else
                     Inr (\<lparr>id' = new_id e, score = stored, grade = g,
                           students = st, courses = co, semesters = se,
                           student_id = student_fk, course_id = course_fk, semester_id = semester_fk,
                           grade_point = gp, sms_sent = False\<rparr> # rows))
           | _ \<Rightarrow> Inl (Error ''violates foreign key constraint'')))"

definition handleAddResult :: "env \<Rightarrow> formData \<Rightarrow> app \<Rightarrow> app" where
  "handleAddResult e fd s =
     (case formData.score fd of
        None \<Rightarrow>
          show_toast (destructive ''Error'' ''Please enter a valid score between 0 and 100'') s
      | Some sc \<Rightarrow>
          if sc < 0 \<or> sc > 100 then
            show_toast (destructive ''Error'' ''Please enter a valid score between 0 and 100'') s
          else
            (let gradeInfo = calculateGradeInfo sc
             in case insert_result e (formData.student_id fd) (formData.course_id fd)
                       (formData.semester_id fd) sc
                       (grade_row.grade gradeInfo) (grade_row.grade_point gradeInfo) (results s) of
                  Inl error \<Rightarrow>
                    show_toast (destructive ''Error'' (message_or error ''Failed to add result'')) s
                | Inr rows \<Rightarrow>
                    show_toast (plain ''Success'' ''Result added successfully'')
                      (s\<lparr>results := rows\<rparr>)))"

text \<open>The row button of the result screen: a toast, and no call to the store.\<close>

definition sendSMSNotification :: "string \<Rightarrow> app \<Rightarrow> app" where
  "sendSMSNotification resultId s =
     show_toast (plain ''SMS Sent'' ''Result notification sent successfully'') s"

subsection \<open>Sending notifications\<close>

definition fetchPendingResults :: "env \<Rightarrow> app \<Rightarrow> app" where
  "fetchPendingResults e s =
     (case select_error e of
        Some error \<Rightarrow> show_toast (destructive ''Error'' ''Failed to fetch pending results'') s
      | None \<Rightarrow>
          s\<lparr>pendingResults :=
               map PendingResult.truncate (filter (\<lambda>r. sms_sent r = False) (results s))\<rparr>)"

text \<open>\<open>update({ sms_sent: true }).eq('id', i)\<close> on the table.\<close>

definition update_sms_sent :: "string \<Rightarrow> results_row list \<Rightarrow> results_row list" where
  "update_sms_sent i rows = map (\<lambda>r. if id' r = i then r\<lparr>sms_sent := True\<rparr> else r) rows"

text \<open>
  The \<open>try\<close> block of \<open>sendSingleSMS\<close>. The message is only written to the console and
  the transport is a delay, so the one call that can fail is the update of the flag. The
  result is the error thrown, if any, and the state at that point. The refresh of the pending
  list, started without \<open>await\<close>, is applied at once.
\<close>

definition sendSingleSMS_try :: "env \<Rightarrow> PendingResult \<Rightarrow> app \<Rightarrow> error option \<times> app" where
  "sendSingleSMS_try e result s =
     (let s1 = s\<lparr>update_requests := update_requests s @ [id' result]\<rparr>
      in case update_error e (id' result) of
           Some error \<Rightarrow> (Some error, s1)
         | None \<Rightarrow>
             (let s2 = s1\<lparr>results := update_sms_sent (id' result) (results s1)\<rparr>;
                  s3 = show_toast
                         (plain ''SMS Sent''
                            (''Result notification sent to '' @ first_name (students result)
                               @ '' '' @ last_name (students result))) s2
              in (None, fetchPendingResults e s3)))"

text \<open>
  \<open>sendSingleSMS\<close> with its \<open>catch\<close> and \<open>finally\<close>. The first component is the error
  with which the returned promise rejects, \<open>None\<close> when it fulfils.
\<close>

definition sendSingleSMS :: "env \<Rightarrow> PendingResult \<Rightarrow> app \<Rightarrow> error option \<times> app" where
  "sendSingleSMS e result s =
     (case sendSingleSMS_try e result (s\<lparr>sending := True\<rparr>) of
        (None, s1) \<Rightarrow> (None, s1\<lparr>sending := False\<rparr>)
      | (Some error, s1) \<Rightarrow>
          (None,
           (show_toast (destructive ''Error'' (message_or error ''Failed to send SMS'')) s1)
             \<lparr>sending := False\<rparr>))"

text \<open>
  The loop of \<open>sendBulkSMS\<close> over the pending list it was called with, carrying
  \<open>successCount\<close>, \<open>failCount\<close> and the state.
\<close>

fun sendBulkSMS_loop ::
  "env \<Rightarrow> PendingResult list \<Rightarrow> nat \<times> nat \<times> app \<Rightarrow> nat \<times> nat \<times> app" where
  "sendBulkSMS_loop e [] acc = acc"
| "sendBulkSMS_loop e (result # rest) (successCount, failCount, s) =
     (case sendSingleSMS e result s of
        (None, s1) \<Rightarrow> sendBulkSMS_loop e rest (successCount + 1, failCount, s1)
      | (Some error, s1) \<Rightarrow> sendBulkSMS_loop e rest (successCount, failCount + 1, s1))"

definition sendBulkSMS :: "env \<Rightarrow> app \<Rightarrow> app" where
  "sendBulkSMS e s =
     (case sendBulkSMS_loop e (pendingResults s) (0, 0, s\<lparr>sending := True\<rparr>) of
        (successCount, failCount, s1) \<Rightarrow>
          (show_toast
             (plain ''Bulk SMS Complete''
                (string_of_nat successCount @ '' messages sent successfully, ''
                   @ string_of_nat failCount @ '' failed'')) s1)
            \<lparr>sending := False\<rparr>)"

subsection \<open>User actions\<close>

datatype op =
    AddResult env formData
  | SendSMSNotification string
  | FetchPendingResults env
  | SendSingleSMS env PendingResult
  | SendBulkSMS env

fun step :: "op \<Rightarrow> app \<Rightarrow> app" where
  "step (AddResult e fd) s = handleAddResult e fd s"
| "step (SendSMSNotification resultId) s = sendSMSNotification resultId s"
| "step (FetchPendingResults e) s = fetchPendingResults e s"
| "step (SendSingleSMS e result) s = snd (sendSingleSMS e result s)"
| "step (SendBulkSMS e) s = sendBulkSMS e s"

definition run :: "op list \<Rightarrow> app \<Rightarrow> app" where
  "run ops s = fold step ops s"

text \<open>The notified flag of the result with id \<open>i\<close>, \<open>None\<close> when there is no such row.\<close>

definition flag_of :: "results_row list \<Rightarrow> string \<Rightarrow> bool option" where
  "flag_of rows i = map_option sms_sent (find (\<lambda>r. id' r = i) rows)"

definition notified :: "app \<Rightarrow> string \<Rightarrow> bool option" where
  "notified s i = flag_of (results s) i"

text \<open>A flag that is kept, or goes from false to true.\<close>

definition raised :: "bool option \<Rightarrow> bool option \<Rightarrow> bool" where
  "raised a b = (b = a \<or> (a = Some False \<and> b = Some True))"

subsection \<open>A store with three pending results\<close>

definition pending_row :: "string \<Rightarrow> string \<Rightarrow> string \<Rightarrow> results_row" where
  "pending_row i n given =
     \<lparr>id' = i, score = 72, grade = ''A'',
      students = \<lparr>first_name = given, last_name = ''Doe'', student_id = ''STU00'' @ n,
                  phone_number = ''+123456789'' @ n\<rparr>,
      courses = \<lparr>course_code = ''CS101'', course_name = ''Introduction to Computer Science''\<rparr>,
      semesters = \<lparr>name = ''Fall 2024'', year = 2024\<rparr>,
      student_id = ''student-'' @ n, course_id = ''course-1'', semester_id = ''semester-1'',
      grade_point = 4, sms_sent = False\<rparr>"

definition three_pending :: app where
  "three_pending =
     \<lparr>results = [pending_row ''r1'' ''1'' ''John'', pending_row ''r2'' ''2'' ''Jane'',
                 pending_row ''r3'' ''3'' ''Mike''],
      pendingResults =
        map PendingResult.truncate
          [pending_row ''r1'' ''1'' ''John'', pending_row ''r2'' ''2'' ''Jane'',
           pending_row ''r3'' ''3'' ''Mike''],
      sending = False, toasts = [], update_requests = []\<rparr>"

text \<open>A service that answers every call but the update of row \<open>r2\<close>.\<close>

definition fails_for_item_2 :: env where
  "fails_for_item_2 =
     \<lparr>students_tab =
        [''student-4'' \<mapsto> \<lparr>first_name = ''Ada'', last_name = ''Obi'', student_id = ''STU004'',
                            phone_number = ''+1234567894''\<rparr>],
      courses_tab =
        [''course-1'' \<mapsto> \<lparr>course_code = ''CS101'',
                           course_name = ''Introduction to Computer Science''\<rparr>],
      semesters_tab = [''semester-1'' \<mapsto> \<lparr>name = ''Fall 2024'', year = 2024\<rparr>],
      new_id = ''r4'', insert_error = None, select_error = None,
      update_error = (\<lambda>i. if i = ''r2'' then Some (Error ''Failed to fetch'') else None)\<rparr>"

section \<open>Grade boundaries\<close>

text \<open>
  C3. On the scores 39, 40, 44, 45, 49, 50, 59, 60, 69, 70, 100 \<open>calculateGradeInfo\<close>
  returns the grades F, E, E, D, D, C, C, B, B, A, A with the grade points
  0, 0, 0, 1, 1, 2, 2, 3, 3, 4, 4: the first threshold reached, read from the top, decides.
\<close>

theorem grade_boundary_exactness:
  "map (\<lambda>s. (grade_row.grade (calculateGradeInfo s), grade_row.grade_point (calculateGradeInfo s)))
       [39, 40, 44, 45, 49, 50, 59, 60, 69, 70, 100]
   = [(''F'', 0), (''E'', 0), (''E'', 0), (''D'', 1), (''D'', 1), (''C'', 2), (''C'', 2),
      (''B'', 3), (''B'', 3), (''A'', 4), (''A'', 4)]"
  by (simp add: calculateGradeInfo_def)

text \<open>
  C2. For every score between 0 and 100 the client function \<open>calculateGradeInfo\<close> and the
  database function \<open>calculate_grade\<close> return the same pair of grade and grade point;
  the boundary score 70 is an A with 4 points on both sides.
\<close>

theorem client_and_database_grade_agree:
  "(0 \<le> s \<and> s \<le> 100 \<longrightarrow>
      (grade_row.grade (calculateGradeInfo s), grade_row.grade_point (calculateGradeInfo s))
      = (grade_row.grade (calculate_grade s), grade_row.grade_point (calculate_grade s)))
   \<and> (grade_row.grade (calculateGradeInfo 70), grade_row.grade_point (calculateGradeInfo 70)) = (''A'', 4)
   \<and> (grade_row.grade (calculate_grade 70), grade_row.grade_point (calculate_grade 70)) = (''A'', 4)"
  by (simp add: calculateGradeInfo_def calculate_grade_def)

theorem client_and_database_grade_agree_witness:
  "(0::real) \<le> 69.99 \<and> (69.99::real) \<le> 100
   \<and> (grade_row.grade (calculateGradeInfo 69.99), grade_row.grade_point (calculateGradeInfo 69.99))
     = (grade_row.grade (calculate_grade 69.99), grade_row.grade_point (calculate_grade 69.99))
   \<and> grade_row.grade (calculate_grade 69.99) = ''B''"
  using client_and_database_grade_agree [of "69.99"]
  by (simp add: calculate_grade_def)

section \<open>Classification boundaries\<close>

text \<open>
  C4. On the CGPA values 1.9, 2.0, 2.6, 2.7, 3.2, 3.3, 3.6, 3.7, 4.0 \<open>getClassification\<close>
  returns Pass, Third, Third, Second Lower, Second Lower, Second Upper, Second Upper, First,
  First: the first threshold reached, read in descending order, decides.
\<close>

theorem classification_boundary_exactness:
  "map getClassification [1.9, 2.0, 2.6, 2.7, 3.2, 3.3, 3.6, 3.7, 4.0]
   = [''Pass'',
      ''Third Class Honours'', ''Third Class Honours'',
      ''Second Class Honours (Lower Division)'', ''Second Class Honours (Lower Division)'',
      ''Second Class Honours (Upper Division)'', ''Second Class Honours (Upper Division)'',
      ''First Class Honours'', ''First Class Honours'']"
  by (simp add: getClassification_def)

section \<open>Accuracy of double arithmetic\<close>

text \<open>
  Rounding to the nearest double moves a number below \<open>2^k\<close> in magnitude by at most
  \<open>2^(k - 54)\<close>. Hence the difference of two values between 0 and 4 is computed to within
  \<open>3 / 2^51\<close>, and the mean of up to \<open>2^20\<close> such values to within \<open>10^-8\<close>.
\<close>

lemma round_half_even_close: "\<bar>real_of_int (round_half_even y) - y\<bar> \<le> 1 / 2"
proof -
  have "real_of_int \<lfloor>y\<rfloor> \<le> y" "y < real_of_int \<lfloor>y\<rfloor> + 1"
    by linarith+
  then show ?thesis
    by (auto simp: round_half_even_def Let_def)
qed

lemma two_powi_succ: "(2::real) powi (k + 1) = 2 powi k * 2"
  by (simp add: power_int_add_1)

lemma ilog2_bounds:
  "0 < x \<Longrightarrow> 2 powi ilog2 x \<le> x \<and> x < 2 powi (ilog2 x + 1)"
proof (induction x rule: ilog2.induct)
  case (1 x)
  have pos: "0 < x" by (rule "1.prems")
  show ?case
  proof (cases "2 \<le> x")
    case True
    have eq: "ilog2 x = ilog2 (x / 2) + 1"
      using pos True by (subst ilog2.simps) simp
    have "2 powi ilog2 (x / 2) \<le> x / 2 \<and> x / 2 < 2 powi (ilog2 (x / 2) + 1)"
      using "1.IH"(1) pos True by simp
    then show ?thesis
      unfolding eq by (simp only: two_powi_succ) linarith
  next
    case False
    show ?thesis
    proof (cases "x < 1")
      case True
      have eq: "ilog2 x = ilog2 (x * 2) - 1"
        using pos False True by (subst ilog2.simps) simp
      have ih: "2 powi ilog2 (x * 2) \<le> x * 2 \<and> x * 2 < 2 powi (ilog2 (x * 2) + 1)"
        using "1.IH"(2) pos False True by simp
      have "(2::real) powi ilog2 (x * 2) = 2 powi (ilog2 (x * 2) - 1 + 1)"
        by simp
      also have "\<dots> = 2 powi (ilog2 (x * 2) - 1) * 2"
        by (rule two_powi_succ)
      finally have down: "(2::real) powi ilog2 (x * 2) = 2 powi (ilog2 (x * 2) - 1) * 2" .
      have up: "2 powi (ilog2 (x * 2) + 1) = (2::real) powi ilog2 (x * 2) * 2"
        by (rule two_powi_succ)
      have same: "2 powi (ilog2 (x * 2) - 1 + 1) = (2::real) powi ilog2 (x * 2)"
        by simp
      show ?thesis
        unfolding eq same using ih down up by linarith
    next
      case ge1: False
      have eq: "ilog2 x = 0"
        using pos False ge1 by (subst ilog2.simps) simp
      show ?thesis
        unfolding eq using False ge1 by simp
    qed
  qed
qed

lemma nearest_double_close:
  assumes "\<bar>x\<bar> < 2 powi k" and "- 1021 \<le> k"
  shows "\<bar>nearest_double x - x\<bar> \<le> 2 powi (k - 54)"
proof (cases "x = 0")
  case True
  have "(0::real) \<le> 2 powi (k - 54)"
    by simp
  then show ?thesis
    using True by (simp add: nearest_double_def)
next
  case False
  define e where "e = max (ilog2 \<bar>x\<bar>) (- 1022)"
  define q :: real where "q = 2 powi (e - 52)"
  have qpos: "0 < q"
    unfolding q_def by (simp add: zero_less_power_int)
  have "2 powi ilog2 \<bar>x\<bar> \<le> \<bar>x\<bar>"
    using ilog2_bounds [of "\<bar>x\<bar>"] False by simp
  then have "(2::real) powi ilog2 \<bar>x\<bar> < 2 powi k"
    using assms(1) by linarith
  then have "ilog2 \<bar>x\<bar> < k"
    by (metis not_le one_le_numeral power_int_increasing)
  then have "e \<le> k - 1"
    using assms(2) unfolding e_def by simp
  then have "q \<le> 2 powi (k - 53)"
    unfolding q_def by (intro power_int_increasing) simp_all
  also have "\<dots> = 2 powi (k - 54) * 2"
  proof -
    have "(2::real) powi (k - 53) = 2 powi (k - 54 + 1)"
      by simp
    then show ?thesis
      by (simp only: two_powi_succ)
  qed
  finally have qle: "q \<le> 2 powi (k - 54) * 2" .
  have fl: "nearest_double x = real_of_int (round_half_even (x / q)) * q"
    using False by (simp add: nearest_double_def e_def q_def Let_def)
  have "\<bar>real_of_int (round_half_even (x / q)) - x / q\<bar> \<le> 1 / 2"
    by (rule round_half_even_close)
  then have "\<bar>real_of_int (round_half_even (x / q)) - x / q\<bar> * q \<le> 1 / 2 * q"
    using qpos by (intro mult_right_mono) simp_all
  moreover have "\<bar>real_of_int (round_half_even (x / q)) - x / q\<bar> * q
      = \<bar>real_of_int (round_half_even (x / q)) * q - x\<bar>"
  proof -
    have "\<bar>real_of_int (round_half_even (x / q)) - x / q\<bar> * q
        = \<bar>(real_of_int (round_half_even (x / q)) - x / q) * q\<bar>"
      using qpos by (simp add: abs_mult)
    also have "(real_of_int (round_half_even (x / q)) - x / q) * q
        = real_of_int (round_half_even (x / q)) * q - x"
      using qpos by (simp add: field_simps)
    finally show ?thesis .
  qed
  ultimately have "\<bar>nearest_double x - x\<bar> \<le> 1 / 2 * q"
    unfolding fl by simp
  then show ?thesis
    using qle by linarith
qed

lemma nearest_double_close_8:
  "\<bar>x\<bar> < 8 \<Longrightarrow> \<bar>nearest_double x - x\<bar> \<le> 1 / 2 ^ 51"
proof -
  assume "\<bar>x\<bar> < 8"
  then have "\<bar>x\<bar> < 2 powi 3"
    by simp
  then have "\<bar>nearest_double x - x\<bar> \<le> 2 powi (3 - 54)"
    by (rule nearest_double_close) simp
  moreover have "(2::real) powi (3 - 54) = 1 / 2 ^ 51"
    by (simp add: power_int_minus field_simps)
  ultimately show ?thesis
    by simp
qed




lemma round_half_even_of_int: "round_half_even (real_of_int m) = m"
  by (simp add: round_half_even_def Let_def)

lemma two_powi_less_iff: "(2::real) powi a < 2 powi b \<Longrightarrow> a < b"
  by (metis not_le one_le_numeral power_int_increasing)

lemma nearest_double_of_nat:
  assumes "0 < n" "n < 2 ^ 53"
  shows "nearest_double (real n) = real n"
proof -
  define e where "e = ilog2 (real n)"
  have pos: "0 < real n"
    using assms(1) by simp
  have b: "2 powi e \<le> real n" "real n < 2 powi (e + 1)"
    using ilog2_bounds [OF pos] unfolding e_def by simp_all
  have "(2::real) powi 0 < 2 powi (e + 1)"
    using b(2) assms(1) by simp
  then have e0: "0 \<le> e"
    using two_powi_less_iff by fastforce
  have "real n < 2 powi 53"
    using assms(2) by (simp add: of_nat_less_numeral_power_cancel_iff)
  then have "(2::real) powi e < 2 powi 53"
    using b(1) by linarith
  then have e52: "e \<le> 52"
    using two_powi_less_iff by fastforce
  define j where "j = nat (52 - e)"
  have q: "(2::real) powi (e - 52) = 1 / 2 ^ j"
    using e52 unfolding j_def power_int_def by (auto simp: field_simps nat_diff_distrib)
  have m: "max e (- 1022) = e"
    using e0 by simp
  have "real n / (1 / 2 ^ j) = real_of_int (int (n * 2 ^ j))"
    by simp
  then have r: "round_half_even (real n / (1 / 2 ^ j)) = int (n * 2 ^ j)"
    by (simp only: round_half_even_of_int)
  have "nearest_double (real n) = real_of_int (round_half_even (real n / (1 / 2 ^ j))) * (1 / 2 ^ j)"
    using pos by (simp add: nearest_double_def Let_def e_def [symmetric] m q)
  also have "\<dots> = real n"
    unfolding r by simp
  finally show ?thesis .
qed

lemma nearest_double_close_2_23:
  "\<bar>x\<bar> < 2 ^ 23 \<Longrightarrow> \<bar>nearest_double x - x\<bar> \<le> 1 / 2 ^ 31"
proof -
  assume "\<bar>x\<bar> < 2 ^ 23"
  then have "\<bar>x\<bar> < 2 powi 23"
    by simp
  then have "\<bar>nearest_double x - x\<bar> \<le> 2 powi (23 - 54)"
    by (rule nearest_double_close) simp
  moreover have "(2::real) powi (23 - 54) = 1 / 2 ^ 31"
    by (simp add: power_int_minus field_simps)
  ultimately show ?thesis
    by simp
qed

lemma double_add_close:
  assumes "\<bar>a\<bar> \<le> 2 ^ 22 + 1" "0 \<le> r" "r \<le> 4"
  shows "\<bar>double_add a r - (a + r)\<bar> \<le> 1 / 2 ^ 29"
proof -
  have ea: "\<bar>nearest_double a - a\<bar> \<le> 1 / 2 ^ 31"
    using assms by (intro nearest_double_close_2_23) simp
  have er: "\<bar>nearest_double r - r\<bar> \<le> 1 / 2 ^ 51"
    using assms by (intro nearest_double_close_8) simp
  have s1: "(1::real) / 2 ^ 31 \<le> 1" "(1::real) / 2 ^ 51 \<le> 1"
    by simp_all
  have p: "(2::real) ^ 22 = 4194304" "(2::real) ^ 23 = 8388608"
    by simp_all
  have "\<bar>nearest_double a + nearest_double r\<bar> < 2 ^ 23"
    using ea er s1 assms unfolding p by linarith
  then have "\<bar>nearest_double (nearest_double a + nearest_double r)
               - (nearest_double a + nearest_double r)\<bar> \<le> 1 / 2 ^ 31"
    by (rule nearest_double_close_2_23)
  moreover have "(1::real) / 2 ^ 31 + 1 / 2 ^ 51 + 1 / 2 ^ 31 \<le> 1 / 2 ^ 29"
    by simp
  ultimately show ?thesis
    unfolding double_add_def using ea er by linarith
qed

lemma fold_double_add_close:
  assumes "\<forall>r\<in>set rows. 0 \<le> r \<and> r \<le> 4"
    and "0 \<le> A" "A + 4 * real (length rows) \<le> 2 ^ 22"
    and "\<bar>a - A\<bar> + real (length rows) / 2 ^ 29 \<le> 1"
  shows "\<bar>fold (\<lambda>record sum. double_add sum record) rows a - (A + sum_list rows)\<bar>
           \<le> \<bar>a - A\<bar> + real (length rows) / 2 ^ 29"
  using assms
proof (induction rows arbitrary: a A)
  case Nil
  then show ?case by simp
next
  case (Cons r rest)
  have r: "0 \<le> r" "r \<le> 4"
    using Cons.prems(1) by simp_all
  have len: "real (length (r # rest)) = real (length rest) + 1"
    by simp
  have "\<bar>a - A\<bar> \<le> 1"
  proof -
    have "0 \<le> real (length (r # rest)) / 2 ^ 29"
      by simp
    then show ?thesis
      using Cons.prems(4) by linarith
  qed
  moreover have "0 \<le> 4 * real (length (r # rest))"
    by simp
  ultimately have "\<bar>a\<bar> \<le> 2 ^ 22 + 1"
    using Cons.prems(2,3) by linarith
  then have step: "\<bar>double_add a r - (a + r)\<bar> \<le> 1 / 2 ^ 29"
    using r by (rule double_add_close)
  then have acc: "\<bar>double_add a r - (A + r)\<bar> \<le> \<bar>a - A\<bar> + 1 / 2 ^ 29"
    by linarith
  have "\<bar>fold (\<lambda>record sum. double_add sum record) rest (double_add a r)
          - (A + r + sum_list rest)\<bar>
        \<le> \<bar>double_add a r - (A + r)\<bar> + real (length rest) / 2 ^ 29"
  proof (rule Cons.IH)
    show "\<forall>r\<in>set rest. 0 \<le> r \<and> r \<le> 4"
      using Cons.prems(1) by simp
    show "0 \<le> A + r"
      using Cons.prems(2) r by simp
    show "A + r + 4 * real (length rest) \<le> 2 ^ 22"
      using Cons.prems(3) r unfolding len by simp
    show "\<bar>double_add a r - (A + r)\<bar> + real (length rest) / 2 ^ 29 \<le> 1"
      using acc Cons.prems(4) unfolding len by (simp add: add_divide_distrib)
  qed
  then show ?case
    using acc unfolding len by (simp add: add_divide_distrib algebra_simps)
qed

lemma double_mean_close:
  assumes "rows \<noteq> []" "length rows \<le> 2 ^ 20" "\<forall>r\<in>set rows. 0 \<le> r \<and> r \<le> 4"
  shows "\<bar>double_div (fold (\<lambda>record sum. double_add sum record) rows 0) (real (length rows))
           - sum_list rows / real (length rows)\<bar> \<le> 1 / 10 ^ 8
       \<and> \<bar>double_div (fold (\<lambda>record sum. double_add sum record) rows 0)
            (real (length rows))\<bar> \<le> 5"
proof -
  define n where "n = length rows"
  define s where "s = fold (\<lambda>record sum. double_add sum record) rows 0"
  define S where "S = sum_list rows"
  have n: "0 < n" "n \<le> 2 ^ 20"
    using assms unfolding n_def by simp_all
  have rn: "1 \<le> real n" "real n \<le> 2 ^ 20"
    using n by (simp_all add: of_nat_le_numeral_power_cancel_iff Suc_leI)
  have nd: "real n / 2 ^ 29 \<le> 1 / 2 ^ 9"
    using rn by (simp add: field_simps)
  have "\<bar>s - (0 + S)\<bar> \<le> \<bar>0 - 0 :: real\<bar> + real n / 2 ^ 29"
    unfolding s_def S_def n_def
  proof (rule fold_double_add_close)
    show "\<forall>r\<in>set rows. 0 \<le> r \<and> r \<le> 4"
      by (rule assms(3))
    show "(0::real) \<le> 0"
      by simp
    show "0 + 4 * real (length rows) \<le> 2 ^ 22"
      using rn unfolding n_def by simp
    show "\<bar>0 - 0 :: real\<bar> + real (length rows) / 2 ^ 29 \<le> 1"
      using nd unfolding n_def by simp
  qed
  then have sum: "\<bar>s - S\<bar> \<le> real n / 2 ^ 29"
    by simp
  have S: "0 \<le> S" "S \<le> 4 * real n"
  proof -
    show "0 \<le> S"
      unfolding S_def using assms(3) by (intro sum_list_nonneg) simp
    have "sum_list rows \<le> sum_list (map (\<lambda>_. 4) rows)"
      using assms(3) by (induction rows) auto
    then show "S \<le> 4 * real n"
      unfolding S_def n_def by (simp add: sum_list_triv)
  qed
  have p: "(2::real) ^ 20 = 1048576" "(2::real) ^ 23 = 8388608"
    by simp_all
  have "real n / 2 ^ 29 \<le> 1"
    using rn by (simp add: field_simps)
  with sum have "\<bar>s - S\<bar> \<le> 1"
    by (rule order_trans)
  then have "\<bar>s\<bar> < 2 ^ 23"
    using S rn unfolding p by linarith
  then have es: "\<bar>nearest_double s - s\<bar> \<le> 1 / 2 ^ 31"
    by (rule nearest_double_close_2_23)
  have dn: "nearest_double (real n) = real n"
  proof (rule nearest_double_of_nat)
    show "0 < n" by (rule n(1))
    have "(2::nat) ^ 20 < 2 ^ 53" by simp
    then show "n < 2 ^ 53" using n(2) by linarith
  qed
  have num: "\<bar>nearest_double s - S\<bar> \<le> real n * (1 / 2 ^ 29 + 1 / 2 ^ 31)"
  proof -
    have "\<bar>nearest_double s - S\<bar> \<le> real n / 2 ^ 29 + 1 / 2 ^ 31"
      using es sum by linarith
    also have "\<dots> \<le> real n / 2 ^ 29 + real n / 2 ^ 31"
      using rn by (simp add: field_simps)
    also have "\<dots> = real n * (1 / 2 ^ 29 + 1 / 2 ^ 31)"
      by (simp add: algebra_simps)
    finally show ?thesis .
  qed
  have quot: "\<bar>nearest_double s / real n - S / real n\<bar> \<le> 1 / 2 ^ 29 + 1 / 2 ^ 31"
  proof -
    have "\<bar>nearest_double s / real n - S / real n\<bar> = \<bar>nearest_double s - S\<bar> / real n"
      using rn by (simp add: diff_divide_distrib [symmetric])
    also have "\<dots> \<le> real n * (1 / 2 ^ 29 + 1 / 2 ^ 31) / real n"
      using num rn by (intro divide_right_mono) simp_all
    also have "\<dots> = 1 / 2 ^ 29 + 1 / 2 ^ 31"
      using rn by simp
    finally show ?thesis .
  qed
  have mean: "S / real n \<le> 4" "0 \<le> S / real n"
    using S rn by (simp_all add: field_simps)
  have tiny: "(1::real) / 2 ^ 29 + 1 / 2 ^ 31 \<le> 1"
      "(1::real) / 2 ^ 29 + 1 / 2 ^ 31 + 1 / 2 ^ 51 \<le> 1 / 10 ^ 8"
      "(1::real) / 10 ^ 8 \<le> 1"
    by simp_all
  have "\<bar>nearest_double s / real n\<bar> < 8"
    using mean tiny(1) quot by linarith
  then have last: "\<bar>nearest_double (nearest_double s / real n) - nearest_double s / real n\<bar>
      \<le> 1 / 2 ^ 51"
    by (rule nearest_double_close_8)
  have close: "\<bar>double_div s (real n) - S / real n\<bar> \<le> 1 / 10 ^ 8"
    unfolding double_div_def dn using last tiny(2) quot by linarith
  then have "\<bar>double_div s (real n)\<bar> \<le> 5"
    using mean tiny(3) by linarith
  with close show ?thesis
    unfolding s_def S_def n_def by simp
qed

section \<open>Recommendations\<close>

lemma nth_last_but_one:
  "length rs > 1 \<Longrightarrow> rs ! (length rs - 2) = last (butlast rs)"
proof -
  assume len: "length rs > 1"
  then have ne: "butlast rs \<noteq> []"
    by (cases rs) (auto split: if_splits)
  have "last (butlast rs) = butlast rs ! (length (butlast rs) - 1)"
    using ne by (rule last_conv_nth)
  also have "\<dots> = rs ! (length rs - 2)"
    using len by (simp add: nth_butlast numeral_2_eq_2)
  finally show ?thesis by simp
qed

lemma nth_last_one:
  "length rs > 0 \<Longrightarrow> rs ! (length rs - 1) = last rs"
  by (simp add: last_conv_nth)


lemma trend_overlay_two:
  "trend_overlay [x, y] =
       (if double_sub (cumulative_gpa y) (cumulative_gpa x) < nearest_double (- 0.2) then
          [''Address declining performance - identify problem areas'']
        else if double_sub (cumulative_gpa y) (cumulative_gpa x) > nearest_double 0.2 then
          [''Great improvement! Continue with current strategies'']
        else [])"
  by (simp add: trend_overlay_def Let_def)



lemma double_sub_3_1_3_0:
  "\<not> double_sub 3.1 3.0 > nearest_double 0.2 \<and> \<not> double_sub 3.1 3.0 < nearest_double (- 0.2)"
  by code_simp



lemma trend_overlay_short:
  "length rs \<le> 1 \<Longrightarrow> trend_overlay rs = []"
  by (simp add: trend_overlay_def)

lemma snd_getRecommendations:
  "snd (getRecommendations cgpa rs) = snd (base_tier cgpa) @ trend_overlay rs"
  by (simp add: getRecommendations_def split: prod.splits)

lemma fst_getRecommendations:
  "fst (getRecommendations cgpa rs) = fst (base_tier cgpa)"
  by (simp add: getRecommendations_def split: prod.splits)




section \<open>Trend indicator\<close>

lemma trend_of_last:
  assumes "length rs > 1"
  shows "trend_of rs =
       (if cumulative_gpa (last rs) > cumulative_gpa (last (butlast rs)) then up
        else if cumulative_gpa (last rs) < cumulative_gpa (last (butlast rs)) then down
        else stable)"
proof -
  have "0 < length rs"
    using assms by linarith
  then have latest: "rs ! (length rs - 1) = last rs"
    by (rule nth_last_one)
  have previous: "rs ! (length rs - 2) = last (butlast rs)"
    using assms by (rule nth_last_but_one)
  have one: "drop (length rs - 2) rs ! 1 = rs ! (length rs - 1)"
  proof -
    have "length rs - 2 + 1 = length rs - 1"
      using assms by linarith
    then show ?thesis
      using assms by (simp del: One_nat_def)
  qed
  have zero: "drop (length rs - 2) rs ! 0 = rs ! (length rs - 2)"
    using assms by simp
  show ?thesis
    unfolding trend_of_def Let_def one zero latest previous using assms by simp
qed

lemma trend_of_short:
  "length rs \<le> 1 \<Longrightarrow> trend_of rs = stable"
  by (simp add: trend_of_def)

lemma analyzeCGPA_Inr:
  "analyzeCGPA (Inr st) (Inr d) =
     Inr \<lparr>student = st,
          records = (case d of None \<Rightarrow> [] | Some rs \<Rightarrow> rs),
          currentCGPA = currentCGPA_of (case d of None \<Rightarrow> [] | Some rs \<Rightarrow> rs),
          trend = trend_of (case d of None \<Rightarrow> [] | Some rs \<Rightarrow> rs),
          classification =
            getClassification (currentCGPA_of (case d of None \<Rightarrow> [] | Some rs \<Rightarrow> rs)),
          recommendations =
            snd (getRecommendations (currentCGPA_of (case d of None \<Rightarrow> [] | Some rs \<Rightarrow> rs))
                   (case d of None \<Rightarrow> [] | Some rs \<Rightarrow> rs)),
          riskLevel =
            fst (getRecommendations (currentCGPA_of (case d of None \<Rightarrow> [] | Some rs \<Rightarrow> rs))
                   (case d of None \<Rightarrow> [] | Some rs \<Rightarrow> rs))\<rparr>"
  by (simp add: analyzeCGPA_def Let_def split: prod.splits)

text \<open>
  C6. With zero or one record the trend indicator is \<open>stable\<close> and the recommendations
  are the base-tier list alone, in \<open>getRecommendations\<close> and in the analysis that
  \<open>analyzeCGPA\<close> stores. With two or more records the indicator is \<open>up\<close>, \<open>down\<close> or
  \<open>stable\<close> by strict comparison of the two latest cumulative GPAs, whatever the size of
  the difference.
\<close>

theorem trend_edge_cases:
  "(length rs \<le> 1 \<longrightarrow>
      trend_of rs = stable
      \<and> snd (getRecommendations cgpa rs) = snd (base_tier cgpa)
      \<and> (case analyzeCGPA (Inr st) (Inr (Some rs)) of
            Inl e \<Rightarrow> False
          | Inr a \<Rightarrow> trend a = stable
                     \<and> recommendations a = snd (base_tier (currentCGPA a))))
   \<and> (length rs \<ge> 2 \<longrightarrow>
        trend_of rs =
          (if cumulative_gpa (last rs) > cumulative_gpa (last (butlast rs)) then up
           else if cumulative_gpa (last rs) < cumulative_gpa (last (butlast rs)) then down
           else stable)
        \<and> (case analyzeCGPA (Inr st) (Inr (Some rs)) of
              Inl e \<Rightarrow> False
            | Inr a \<Rightarrow> trend a = trend_of rs))"
proof (intro conjI impI)
  assume short: "length rs \<le> 1"
  show "trend_of rs = stable"
    using short by (rule trend_of_short)
  show "snd (getRecommendations cgpa rs) = snd (base_tier cgpa)"
    using short by (simp add: snd_getRecommendations trend_overlay_short)
  show "case analyzeCGPA (Inr st) (Inr (Some rs)) of
          Inl e \<Rightarrow> False
        | Inr a \<Rightarrow> trend a = stable \<and> recommendations a = snd (base_tier (currentCGPA a))"
    using short
    by (simp add: analyzeCGPA_Inr trend_of_short snd_getRecommendations trend_overlay_short)
next
  assume long: "length rs \<ge> 2"
  then have "length rs > 1"
    by linarith
  then show "trend_of rs =
          (if cumulative_gpa (last rs) > cumulative_gpa (last (butlast rs)) then up
           else if cumulative_gpa (last rs) < cumulative_gpa (last (butlast rs)) then down
           else stable)"
    by (rule trend_of_last)
  show "case analyzeCGPA (Inr st) (Inr (Some rs)) of
          Inl e \<Rightarrow> False
        | Inr a \<Rightarrow> trend a = trend_of rs"
    by (simp add: analyzeCGPA_Inr)
qed

theorem trend_edge_cases_witness:
  "length [\<lparr>semester_gpa = 3.1, cumulative_gpa = 3.1, total_credit_units = 15,
            semesters = \<lparr>name = ''First'', year = 2024\<rparr>\<rparr>] \<le> 1
   \<and> trend_of [\<lparr>semester_gpa = 3.1, cumulative_gpa = 3.1, total_credit_units = 15,
                semesters = \<lparr>name = ''First'', year = 2024\<rparr>\<rparr>] = stable
   \<and> length [\<lparr>semester_gpa = 3.0, cumulative_gpa = 3.0, total_credit_units = 15,
              semesters = \<lparr>name = ''First'', year = 2024\<rparr>\<rparr>,
             \<lparr>semester_gpa = 3.2, cumulative_gpa = 3.1, total_credit_units = 30,
              semesters = \<lparr>name = ''Second'', year = 2024\<rparr>\<rparr>] \<ge> 2
   \<and> trend_of [\<lparr>semester_gpa = 3.0, cumulative_gpa = 3.0, total_credit_units = 15,
                semesters = \<lparr>name = ''First'', year = 2024\<rparr>\<rparr>,
               \<lparr>semester_gpa = 3.2, cumulative_gpa = 3.1, total_credit_units = 30,
                semesters = \<lparr>name = ''Second'', year = 2024\<rparr>\<rparr>] = up
   \<and> snd (getRecommendations 3.1
        [\<lparr>semester_gpa = 3.0, cumulative_gpa = 3.0, total_credit_units = 15,
          semesters = \<lparr>name = ''First'', year = 2024\<rparr>\<rparr>,
         \<lparr>semester_gpa = 3.2, cumulative_gpa = 3.1, total_credit_units = 30,
          semesters = \<lparr>name = ''Second'', year = 2024\<rparr>\<rparr>])
     = snd (base_tier 3.1)"
  using trend_edge_cases [of
          "[\<lparr>semester_gpa = 3.1, cumulative_gpa = 3.1, total_credit_units = 15,
             semesters = \<lparr>name = ''First'', year = 2024\<rparr>\<rparr>]" "3.1" "()"]
        trend_edge_cases [of
          "[\<lparr>semester_gpa = 3.0, cumulative_gpa = 3.0, total_credit_units = 15,
             semesters = \<lparr>name = ''First'', year = 2024\<rparr>\<rparr>,
            \<lparr>semester_gpa = 3.2, cumulative_gpa = 3.1, total_credit_units = 30,
             semesters = \<lparr>name = ''Second'', year = 2024\<rparr>\<rparr>]" "3.1" "()"]
  using double_sub_3_1_3_0
  by (simp add: snd_getRecommendations trend_overlay_two)

section \<open>Risk bands\<close>

text \<open>
  C7. For the CGPA values 1.5, 2.5, 3.0, 3.8 \<open>getRecommendations\<close> returns the risk levels
  high, medium, low, low, whatever the records. For every CGPA and every record list the
  recommendation list is not empty; without a trend string it has 4 entries below 2.0,
  4 below 2.7, 3 below 3.3 and 4 from 3.3 on.
\<close>

theorem advisory_risk_bands:
  "map (\<lambda>c. fst (getRecommendations c rs)) [1.5, 2.5, 3.0, 3.8] = [high, medium, low, low]
   \<and> length (snd (getRecommendations cgpa rs)) > 0
   \<and> length (snd (getRecommendations cgpa [])) =
       (if cgpa < 2.0 then 4 else if cgpa < 2.7 then 4 else if cgpa < 3.3 then 3 else 4)
   \<and> take (length (snd (getRecommendations cgpa []))) (snd (getRecommendations cgpa rs))
       = snd (getRecommendations cgpa [])"
  by (simp add: fst_getRecommendations snd_getRecommendations base_tier_def
        trend_overlay_short)

section \<open>Analysis of an empty history\<close>

text \<open>
  C10. When both queries succeed and the student has no CGPA record (an empty list, or
  \<open>null\<close>), \<open>analyzeCGPA\<close> does not throw: the current CGPA is 0, the classification is
  Pass, the risk level is high, the trend is stable and the recommendations are the four
  strings of the band below 2.0.
\<close>

theorem analyze_empty_history:
  "analyzeCGPA (Inr st) (Inr (Some [])) =
     Inr \<lparr>student = st, records = [], currentCGPA = 0, trend = stable,
          classification = ''Pass'',
          recommendations =
            [''Seek academic counseling immediately'',
             ''Consider reducing course load to focus on improving grades'',
             ''Utilize tutoring services and study groups'',
             ''Meet with academic advisor to discuss academic standing''],
          riskLevel = high\<rparr>
   \<and> analyzeCGPA (Inr st) (Inr None) = analyzeCGPA (Inr st) (Inr (Some []))"
  by (simp add: analyzeCGPA_def currentCGPA_of_def trend_of_def getClassification_def
        getRecommendations_def base_tier_def trend_overlay_def)

section \<open>Aggregation\<close>

lemma round_half_away_close:
  "\<bar>round_half_away 2 x - x\<bar> \<le> 1 / 200"
proof (cases "x < 0")
  case True
  define n where "n = \<lfloor>- x * 100 + 1 / 2\<rfloor>"
  have lower: "real_of_int n \<le> - x * 100 + 1 / 2"
    unfolding n_def by (rule of_int_floor_le)
  have upper: "- x * 100 + 1 / 2 < real_of_int n + 1"
    unfolding n_def by linarith
  have "round_half_away 2 x = - (real_of_int n / 100)"
    using True by (simp add: round_half_away_def n_def)
  then show ?thesis
    using lower upper by linarith
next
  case False
  define n where "n = \<lfloor>x * 100 + 1 / 2\<rfloor>"
  have lower: "real_of_int n \<le> x * 100 + 1 / 2"
    unfolding n_def by (rule of_int_floor_le)
  have upper: "x * 100 + 1 / 2 < real_of_int n + 1"
    unfolding n_def by linarith
  have "round_half_away 2 x = real_of_int n / 100"
    using False by (simp add: round_half_away_def n_def)
  then show ?thesis
    using lower upper by linarith
qed

text \<open>The averages that the examples need, computed in double arithmetic.\<close>

lemma averageCGPA_of_3_0_3_5_3_5:
  "averageCGPA_of (Some [3.0, 3.5, 3.5]) = 7505999378950827 / 2251799813685248"
  by code_simp

lemma averageCGPA_of_2_50_2_51:
  "averageCGPA_of (Some [2.50, 2.51]) = 2820379266640773 / 1125899906842624"
  by code_simp

lemma reported_average:
  "averageCGPA (fetchDashboardStats sc cc mc rr gd cgpaData)
     = toFixed_parseFloat 2 (averageCGPA_of cgpaData)"
  by (simp add: fetchDashboardStats_def)

lemma reported_3_0_3_5_3_5:
  "averageCGPA (fetchDashboardStats sc cc mc rr gd (Some [3.0, 3.5, 3.5])) = 3.33"
proof -
  have "averageCGPA (fetchDashboardStats sc cc mc rr gd (Some [3.0, 3.5, 3.5]))
      = toFixed_parseFloat 2 (7505999378950827 / 2251799813685248)"
    unfolding reported_average averageCGPA_of_3_0_3_5_3_5 ..
  also have "\<dots> = 3.33"
    by (simp add: toFixed_parseFloat_def round_half_away_def)
  finally show ?thesis .
qed

lemma reported_2_50_2_51:
  "averageCGPA (fetchDashboardStats sc cc mc rr gd (Some [2.50, 2.51])) = 2.5"
proof -
  have "averageCGPA (fetchDashboardStats sc cc mc rr gd (Some [2.50, 2.51]))
      = toFixed_parseFloat 2 (2820379266640773 / 1125899906842624)"
    unfolding reported_average averageCGPA_of_2_50_2_51 ..
  also have "\<dots> = 2.5"
    by (simp add: toFixed_parseFloat_def round_half_away_def)
  finally show ?thesis .
qed

text \<open>
  C8, as the claim states it: with at least one record the average that the dashboard
  reports is the arithmetic mean of the cumulative GPAs. For the records 3.0, 3.5, 3.5 the
  mean is 10/3 and the reported average is 3.33.
\<close>

theorem reported_average_not_exact_mean:
  "averageCGPA (fetchDashboardStats (Some 3) (Some 5) (Some 0) (Some ([] :: unit list))
                  (Some [''A'', ''B'', ''B'']) (Some [3.0, 3.5, 3.5]))
   \<noteq> sum_list [3.0, 3.5, 3.5] / real (length [3.0 :: real, 3.5, 3.5])"
  unfolding reported_3_0_3_5_3_5 by simp

text \<open>
  C8, amended. With no result and no CGPA record (empty answers, or \<open>null\<close>) the reported
  average is 0 and the histogram is empty. With at least one record the average computed is
  the unweighted mean in double arithmetic: the cumulative GPAs added from left to right,
  the sum divided by the count, every operation rounded to the nearest double. The average
  reported is that double rounded to two decimals with \<open>toFixed(2)\<close>, at most 0.005 away
  from it when it is below \<open>10^21\<close> in magnitude. For up to \<open>2^20\<close> records with values
  between 0 and 4 the average computed is within \<open>10^-8\<close> of the exact arithmetic mean and
  the average reported within \<open>0.005 + 10^-8\<close> of it. The records 3.0, 3.5, 3.5 report 3.33,
  and the records 2.50, 2.51 report 2.5, their computed mean being just below 2.505.
\<close>

theorem aggregation_average_and_histogram:
  "averageCGPA (fetchDashboardStats sc cc mc rr (Some []) (Some [])) = 0
   \<and> gradeDistribution (fetchDashboardStats sc cc mc rr (Some []) (Some [])) = Map.empty
   \<and> averageCGPA (fetchDashboardStats sc cc mc rr None None) = 0
   \<and> gradeDistribution (fetchDashboardStats sc cc mc rr None None) = Map.empty
   \<and> (rows \<noteq> [] \<longrightarrow>
        averageCGPA_of (Some rows)
          = double_div (fold (\<lambda>record sum. double_add sum record) rows 0) (real (length rows))
        \<and> averageCGPA (fetchDashboardStats sc cc mc rr gd (Some rows))
            = toFixed_parseFloat 2 (averageCGPA_of (Some rows)))
   \<and> (rows \<noteq> [] \<and> \<bar>averageCGPA_of (Some rows)\<bar> < 10 ^ 21 \<longrightarrow>
        \<bar>averageCGPA (fetchDashboardStats sc cc mc rr gd (Some rows))
           - averageCGPA_of (Some rows)\<bar> \<le> 0.005)
   \<and> (rows \<noteq> [] \<and> length rows \<le> 2 ^ 20 \<and> (\<forall>r\<in>set rows. 0 \<le> r \<and> r \<le> 4) \<longrightarrow>
        \<bar>averageCGPA_of (Some rows) - sum_list rows / real (length rows)\<bar> \<le> 1 / 10 ^ 8
        \<and> \<bar>averageCGPA (fetchDashboardStats sc cc mc rr gd (Some rows))
             - sum_list rows / real (length rows)\<bar> \<le> 0.005 + 1 / 10 ^ 8)
   \<and> averageCGPA (fetchDashboardStats sc cc mc rr gd (Some [3.0, 3.5, 3.5])) = 3.33
   \<and> averageCGPA (fetchDashboardStats sc cc mc rr gd (Some [2.50, 2.51])) = 2.5"
proof -
  have empty: "averageCGPA (fetchDashboardStats sc cc mc rr (Some []) (Some [])) = 0
     \<and> gradeDistribution (fetchDashboardStats sc cc mc rr (Some []) (Some [])) = Map.empty
     \<and> averageCGPA (fetchDashboardStats sc cc mc rr None None) = 0
     \<and> gradeDistribution (fetchDashboardStats sc cc mc rr None None) = Map.empty"
    by (simp add: fetchDashboardStats_def averageCGPA_of_def gradeDistribution_of_def
          toFixed_parseFloat_def round_half_away_def)
  have mean: "rows \<noteq> [] \<longrightarrow>
        averageCGPA_of (Some rows)
          = double_div (fold (\<lambda>record sum. double_add sum record) rows 0) (real (length rows))
        \<and> averageCGPA (fetchDashboardStats sc cc mc rr gd (Some rows))
            = toFixed_parseFloat 2 (averageCGPA_of (Some rows))"
    by (simp add: reported_average averageCGPA_of_def)
  have close: "rows \<noteq> [] \<and> \<bar>averageCGPA_of (Some rows)\<bar> < 10 ^ 21 \<longrightarrow>
        \<bar>averageCGPA (fetchDashboardStats sc cc mc rr gd (Some rows))
           - averageCGPA_of (Some rows)\<bar> \<le> 0.005"
  proof
    assume h: "rows \<noteq> [] \<and> \<bar>averageCGPA_of (Some rows)\<bar> < 10 ^ 21"
    then have "averageCGPA (fetchDashboardStats sc cc mc rr gd (Some rows))
        = round_half_away 2 (averageCGPA_of (Some rows))"
      by (simp add: reported_average toFixed_parseFloat_def)
    then show "\<bar>averageCGPA (fetchDashboardStats sc cc mc rr gd (Some rows))
           - averageCGPA_of (Some rows)\<bar> \<le> 0.005"
      using round_half_away_close [of "averageCGPA_of (Some rows)"] by simp
  qed
  have exact: "rows \<noteq> [] \<and> length rows \<le> 2 ^ 20 \<and> (\<forall>r\<in>set rows. 0 \<le> r \<and> r \<le> 4) \<longrightarrow>
        \<bar>averageCGPA_of (Some rows) - sum_list rows / real (length rows)\<bar> \<le> 1 / 10 ^ 8
        \<and> \<bar>averageCGPA (fetchDashboardStats sc cc mc rr gd (Some rows))
             - sum_list rows / real (length rows)\<bar> \<le> 0.005 + 1 / 10 ^ 8"
  proof
    assume h: "rows \<noteq> [] \<and> length rows \<le> 2 ^ 20 \<and> (\<forall>r\<in>set rows. 0 \<le> r \<and> r \<le> 4)"
    then have computed: "averageCGPA_of (Some rows)
        = double_div (fold (\<lambda>record sum. double_add sum record) rows 0) (real (length rows))"
      using mean by blast
    have "\<bar>double_div (fold (\<lambda>record sum. double_add sum record) rows 0) (real (length rows))
           - sum_list rows / real (length rows)\<bar> \<le> 1 / 10 ^ 8
       \<and> \<bar>double_div (fold (\<lambda>record sum. double_add sum record) rows 0)
            (real (length rows))\<bar> \<le> 5"
      using h by (intro double_mean_close) simp_all
    then have near: "\<bar>averageCGPA_of (Some rows) - sum_list rows / real (length rows)\<bar>
          \<le> 1 / 10 ^ 8"
      and bounded: "\<bar>averageCGPA_of (Some rows)\<bar> \<le> 5"
      unfolding computed by simp_all
    have "\<bar>averageCGPA_of (Some rows)\<bar> < 10 ^ 21"
      using bounded by simp
    then have "\<bar>averageCGPA (fetchDashboardStats sc cc mc rr gd (Some rows))
           - averageCGPA_of (Some rows)\<bar> \<le> 0.005"
      using close h by blast
    then have "\<bar>averageCGPA (fetchDashboardStats sc cc mc rr gd (Some rows))
             - sum_list rows / real (length rows)\<bar> \<le> 0.005 + 1 / 10 ^ 8"
      using near by linarith
    with near show "\<bar>averageCGPA_of (Some rows) - sum_list rows / real (length rows)\<bar>
          \<le> 1 / 10 ^ 8
        \<and> \<bar>averageCGPA (fetchDashboardStats sc cc mc rr gd (Some rows))
             - sum_list rows / real (length rows)\<bar> \<le> 0.005 + 1 / 10 ^ 8"
      by blast
  qed
  have thirds: "averageCGPA (fetchDashboardStats sc cc mc rr gd (Some [3.0, 3.5, 3.5])) = 3.33"
    by (rule reported_3_0_3_5_3_5)
  have tie: "averageCGPA (fetchDashboardStats sc cc mc rr gd (Some [2.50, 2.51])) = 2.5"
    by (rule reported_2_50_2_51)
  show ?thesis
    using empty mean close exact thirds tie by blast
qed

theorem aggregation_average_and_histogram_witness:
  "[2.50 :: real, 2.51] \<noteq> []
   \<and> \<bar>averageCGPA_of (Some [2.50, 2.51])\<bar> < 10 ^ 21
   \<and> length [2.50 :: real, 2.51] \<le> 2 ^ 20
   \<and> (0 :: real) \<le> 2.50 \<and> (2.50 :: real) \<le> 4 \<and> (0 :: real) \<le> 2.51 \<and> (2.51 :: real) \<le> 4
   \<and> averageCGPA_of (Some [2.50, 2.51]) = 2820379266640773 / 1125899906842624
   \<and> averageCGPA_of (Some [2.50, 2.51]) < 2.505
   \<and> averageCGPA (fetchDashboardStats (Some 3) (Some 5) (Some 0) (Some ([] :: unit list))
                    (Some [''A'', ''B'', ''B'']) (Some [2.50, 2.51])) = 2.5
   \<and> \<bar>averageCGPA (fetchDashboardStats (Some 3) (Some 5) (Some 0) (Some ([] :: unit list))
                    (Some [''A'', ''B'', ''B'']) (Some [2.50, 2.51]))
        - averageCGPA_of (Some [2.50, 2.51])\<bar> \<le> 0.005
   \<and> \<bar>averageCGPA (fetchDashboardStats (Some 3) (Some 5) (Some 0) (Some ([] :: unit list))
                    (Some [''A'', ''B'', ''B'']) (Some [2.50, 2.51]))
        - sum_list [2.50, 2.51] / real (length [2.50 :: real, 2.51])\<bar> \<le> 0.005 + 1 / 10 ^ 8"
proof -
  have computed: "averageCGPA_of (Some [2.50, 2.51]) = 2820379266640773 / 1125899906842624"
    by (rule averageCGPA_of_2_50_2_51)
  have nonempty: "[2.50 :: real, 2.51] \<noteq> []"
    by simp
  have small: "\<bar>averageCGPA_of (Some [2.50, 2.51])\<bar> < 10 ^ 21"
    unfolding computed by simp
  have count: "length [2.50 :: real, 2.51] \<le> 2 ^ 20"
    by simp
  have range: "\<forall>r\<in>set [2.50 :: real, 2.51]. 0 \<le> r \<and> r \<le> 4"
    by simp
  have below: "averageCGPA_of (Some [2.50, 2.51]) < 2.505"
    unfolding computed by simp
  note at_tie = aggregation_average_and_histogram [of "Some 3" "Some 5" "Some 0"
          "Some ([] :: unit list)" "[2.50, 2.51]" "Some [''A'', ''B'', ''B'']"]
  have reported: "averageCGPA (fetchDashboardStats (Some 3) (Some 5) (Some 0)
                    (Some ([] :: unit list)) (Some [''A'', ''B'', ''B''])
                    (Some [2.50, 2.51])) = 2.5"
    using at_tie by blast
  have close: "\<bar>averageCGPA (fetchDashboardStats (Some 3) (Some 5) (Some 0)
                    (Some ([] :: unit list)) (Some [''A'', ''B'', ''B''])
                    (Some [2.50, 2.51]))
        - averageCGPA_of (Some [2.50, 2.51])\<bar> \<le> 0.005"
    using at_tie nonempty small by blast
  have exact: "\<bar>averageCGPA (fetchDashboardStats (Some 3) (Some 5) (Some 0)
                    (Some ([] :: unit list)) (Some [''A'', ''B'', ''B''])
                    (Some [2.50, 2.51]))
        - sum_list [2.50, 2.51] / real (length [2.50 :: real, 2.51])\<bar> \<le> 0.005 + 1 / 10 ^ 8"
    using at_tie nonempty count range by blast
  have each: "(0 :: real) \<le> 2.50 \<and> (2.50 :: real) \<le> 4 \<and> (0 :: real) \<le> 2.51 \<and> (2.51 :: real) \<le> 4"
    by simp
  show ?thesis
    using nonempty small count each computed below reported close exact by blast
qed

section \<open>Bulk dispatch\<close>

lemma sendSingleSMS_fulfils: "fst (sendSingleSMS e r s) = None"
  by (simp add: sendSingleSMS_def split: prod.splits option.splits)

lemma sendBulkSMS_loop_step:
  "sendBulkSMS_loop e (r # rest) (a, b, s) =
     sendBulkSMS_loop e rest (a + 1, b, snd (sendSingleSMS e r s))"
  using sendSingleSMS_fulfils [of e r s]
  by (cases "sendSingleSMS e r s") (simp split: option.splits)

lemma sendBulkSMS_loop_counts:
  "fst (sendBulkSMS_loop e rs (a, b, s)) = a + length rs
   \<and> fst (snd (sendBulkSMS_loop e rs (a, b, s))) = b"
proof (induction rs arbitrary: a s)
  case Nil
  show ?case by simp
next
  case (Cons r rest)
  show ?case
    unfolding sendBulkSMS_loop_step using Cons.IH [of "a + 1" "snd (sendSingleSMS e r s)"]
    by simp
qed

text \<open>
  Whatever the store answers, the summary of \<open>sendBulkSMS\<close> counts every pending item as
  sent and none as failed: \<open>sendSingleSMS\<close> handles its own error, so the loop never sees
  one.
\<close>

lemma sendBulkSMS_summary:
  "description (last (toasts (sendBulkSMS e s))) =
     string_of_nat (length (pendingResults s)) @ '' messages sent successfully, ''
       @ string_of_nat 0 @ '' failed''"
proof -
  obtain a b s1 where
    loop: "sendBulkSMS_loop e (pendingResults s) (0, 0, s\<lparr>sending := True\<rparr>) = (a, b, s1)"
    by (cases "sendBulkSMS_loop e (pendingResults s) (0, 0, s\<lparr>sending := True\<rparr>)") auto
  have "a = length (pendingResults s) \<and> b = 0"
    using sendBulkSMS_loop_counts [of e "pendingResults s" 0 0 "s\<lparr>sending := True\<rparr>"] loop
    by simp
  then show ?thesis
    by (simp add: sendBulkSMS_def loop show_toast_def plain_def)
qed

text \<open>
  C1, on the code. Three results are pending and the store rejects the update of the
  second. After \<open>sendBulkSMS\<close> the first and the third are notified and the second is not,
  an update was requested for each of the three in order, and only the second is still
  pending, so that a second run requests an update for it alone. The summary, however,
  reads "3 messages sent successfully, 0 failed", where the claim has 2 and 1.
\<close>

theorem bulk_dispatch_partial_failure:
  "map sms_sent (results (sendBulkSMS fails_for_item_2 three_pending)) = [True, False, True]
   \<and> update_requests (sendBulkSMS fails_for_item_2 three_pending) = [''r1'', ''r2'', ''r3'']
   \<and> map id' (pendingResults (sendBulkSMS fails_for_item_2 three_pending)) = [''r2'']
   \<and> update_requests (sendBulkSMS fails_for_item_2
                         (sendBulkSMS fails_for_item_2 three_pending))
       = [''r1'', ''r2'', ''r3'', ''r2'']
   \<and> description (last (toasts (sendBulkSMS fails_for_item_2 three_pending)))
       = ''3 messages sent successfully, 0 failed''"
  by code_simp

section \<open>The notified flag\<close>

lemma raised_refl: "raised a a"
  by (simp add: raised_def)

lemma raised_trans: "raised a b \<Longrightarrow> raised b c \<Longrightarrow> raised a c"
  by (auto simp: raised_def)

lemma flag_of_update:
  "flag_of (update_sms_sent j rows) i =
     (if i = j then map_option (\<lambda>_. True) (flag_of rows i) else flag_of rows i)"
  by (induction rows) (auto simp: flag_of_def update_sms_sent_def)

lemma raised_update: "raised (flag_of rows i) (flag_of (update_sms_sent j rows) i)"
  by (cases "flag_of rows i") (auto simp: flag_of_update raised_def)

lemma results_show_toast [simp]: "results (show_toast t s) = results s"
  by (simp add: show_toast_def)

lemma results_fetchPendingResults [simp]: "results (fetchPendingResults e s) = results s"
  by (simp add: fetchPendingResults_def split: option.splits)

lemma results_sendSingleSMS:
  "results (snd (sendSingleSMS e r s)) = results s
   \<or> results (snd (sendSingleSMS e r s)) = update_sms_sent (id' r) (results s)"
  by (simp add: sendSingleSMS_def sendSingleSMS_try_def Let_def split: option.splits)

lemma raised_sendSingleSMS:
  "raised (notified s i) (notified (snd (sendSingleSMS e r s)) i)"
  using results_sendSingleSMS [of e r s]
  by (auto simp: notified_def raised_refl raised_update)

lemma raised_sendBulkSMS_loop:
  "raised (notified s i) (notified (snd (snd (sendBulkSMS_loop e rs (a, b, s)))) i)"
proof (induction rs arbitrary: a s)
  case Nil
  show ?case by (simp add: raised_refl)
next
  case (Cons r rest)
  have "raised (notified s i) (notified (snd (sendSingleSMS e r s)) i)"
    by (rule raised_sendSingleSMS)
  moreover have "raised (notified (snd (sendSingleSMS e r s)) i)
      (notified (snd (snd (sendBulkSMS_loop e rest (a + 1, b, snd (sendSingleSMS e r s))))) i)"
    by (rule Cons.IH)
  ultimately show ?case
    unfolding sendBulkSMS_loop_step by (rule raised_trans)
qed

lemma results_sendBulkSMS:
  "results (sendBulkSMS e s) =
     results (snd (snd (sendBulkSMS_loop e (pendingResults s) (0, 0, s\<lparr>sending := True\<rparr>))))"
  by (simp add: sendBulkSMS_def split: prod.splits)

lemma raised_sendBulkSMS:
  "raised (notified s i) (notified (sendBulkSMS e s) i)"
proof -
  have "raised (notified (s\<lparr>sending := True\<rparr>) i)
          (notified (snd (snd (sendBulkSMS_loop e (pendingResults s)
                                 (0, 0, s\<lparr>sending := True\<rparr>)))) i)"
    by (rule raised_sendBulkSMS_loop)
  then show ?thesis
    by (simp add: notified_def results_sendBulkSMS)
qed

lemma insert_result_cases:
  "insert_result e st co se sc g gp rows = Inr rows' \<Longrightarrow>
     \<exists>new. rows' = new # rows \<and> id' new \<notin> set (map id' rows) \<and> sms_sent new = False"
  by (auto simp: insert_result_def Let_def split: option.splits if_splits)

lemma flag_of_fresh: "i \<notin> set (map id' rows) \<Longrightarrow> flag_of rows i = None"
  by (induction rows) (auto simp: flag_of_def)

lemma flag_of_Cons:
  "flag_of (new # rows) i = (if id' new = i then Some (sms_sent new) else flag_of rows i)"
  by (simp add: flag_of_def)

lemma handleAddResult_flag:
  "notified (handleAddResult e fd s) i = notified s i
   \<or> (notified s i = None \<and> notified (handleAddResult e fd s) i = Some False)"
proof (cases "formData.score fd")
  case None
  then show ?thesis by (simp add: handleAddResult_def notified_def)
next
  case (Some sc)
  show ?thesis
  proof (cases "insert_result e (formData.student_id fd) (formData.course_id fd)
                  (formData.semester_id fd) sc
                  (grade_row.grade (calculateGradeInfo sc))
                  (grade_row.grade_point (calculateGradeInfo sc)) (results s)")
    case (Inl err)
    then show ?thesis using Some by (simp add: handleAddResult_def notified_def Let_def)
  next
    case (Inr rows)
    then obtain new where new: "rows = new # results s" "id' new \<notin> set (map id' (results s))"
        "sms_sent new = False"
      using insert_result_cases by blast
    show ?thesis
    proof (cases "sc < 0 \<or> sc > 100")
      case True
      then show ?thesis using Some by (simp add: handleAddResult_def notified_def)
    next
      case False
      then have res: "results (handleAddResult e fd s) = new # results s"
        using Some Inr new by (simp add: handleAddResult_def Let_def)
      show ?thesis
        using new flag_of_fresh [of "id' new" "results s"]
        by (auto simp: notified_def res flag_of_Cons)
    qed
  qed
qed

lemma step_flag:
  "raised (notified s i) (notified (step opr s) i)
   \<or> (notified s i = None \<and> notified (step opr s) i = Some False)"
proof (cases opr)
  case (AddResult e fd)
  then show ?thesis using handleAddResult_flag [of e fd s i] by (auto simp: raised_def)
next
  case (SendSMSNotification x)
  then show ?thesis by (simp add: sendSMSNotification_def notified_def raised_refl)
next
  case (FetchPendingResults e)
  then show ?thesis by (simp add: notified_def raised_refl)
next
  case (SendSingleSMS e r)
  then show ?thesis by (simp add: raised_sendSingleSMS)
next
  case (SendBulkSMS e)
  then show ?thesis by (simp add: raised_sendBulkSMS)
qed

lemma step_keeps_true:
  "notified s i = Some True \<Longrightarrow> notified (step opr s) i = Some True"
  using step_flag [of s i opr] by (auto simp: raised_def)

lemma run_keeps_true:
  "notified s i = Some True \<Longrightarrow> notified (run ops s) i = Some True"
  unfolding run_def
  by (induction ops arbitrary: s) (simp_all add: step_keeps_true)

text \<open>
  C9. Every user action leaves the notified flag of a result as it is or takes it from
  false to true, and a result that did not exist before the action has the flag false after
  it. Hence no sequence of actions takes a flag from true back to false.
\<close>

theorem notified_flag_monotonic:
  "(notified (step opr s) i = notified s i
      \<or> (notified s i = Some False \<and> notified (step opr s) i = Some True)
      \<or> (notified s i = None \<and> notified (step opr s) i = Some False))
   \<and> (notified s i = Some True \<longrightarrow> notified (run ops s) i = Some True)"
  using step_flag [of s i opr] run_keeps_true [of s i ops]
  by (auto simp: raised_def)

theorem notified_flag_monotonic_witness:
  "notified (sendBulkSMS fails_for_item_2 three_pending) ''r1'' = Some True
   \<and> notified
       (run [AddResult fails_for_item_2
               \<lparr>formData.student_id = ''student-4'', formData.course_id = ''course-1'',
                formData.semester_id = ''semester-1'', formData.score = Some 55\<rparr>,
             SendBulkSMS fails_for_item_2,
             SendSingleSMS fails_for_item_2 (PendingResult.truncate (pending_row ''r1'' ''1'' ''John'')),
             FetchPendingResults fails_for_item_2,
             SendSMSNotification ''r1'']
          (sendBulkSMS fails_for_item_2 three_pending)) ''r1'' = Some True"
proof -
  have flagged: "notified (sendBulkSMS fails_for_item_2 three_pending) ''r1'' = Some True"
    by code_simp
  show ?thesis
    using flagged
      notified_flag_monotonic [of "SendBulkSMS fails_for_item_2"
        "sendBulkSMS fails_for_item_2 three_pending" "''r1''"
        "[AddResult fails_for_item_2
               \<lparr>formData.student_id = ''student-4'', formData.course_id = ''course-1'',
                formData.semester_id = ''semester-1'', formData.score = Some 55\<rparr>,
             SendBulkSMS fails_for_item_2,
             SendSingleSMS fails_for_item_2 (PendingResult.truncate (pending_row ''r1'' ''1'' ''John'')),
             FetchPendingResults fails_for_item_2,
             SendSMSNotification ''r1'']"]
    by blast
qed

end
